theory Spec2Isabelle
  imports Main
begin

section \<open>The platform: ECMAScript numbers and Date objects\<close>

text \<open>
  \<^verbatim>\<open>uelos.js\<close> computes due dates with the built-in \<^verbatim>\<open>Date\<close>:
  \<^verbatim>\<open>new Date(startDate)\<close>, \<^verbatim>\<open>getUTCDate()\<close> and \<^verbatim>\<open>setUTCDate(n)\<close>. Their meaning is fixed by
  ECMA-262 (section "Date Objects"); the abstract operations below follow that text, with its
  names.

  A Number is modelled as \<open>int option\<close>: \<open>Some n\<close> is the integral Number \<open>n\<close> and \<open>None\<close> is
  \<^verbatim>\<open>NaN\<close>. Time values are integral by construction (\<open>TimeClip\<close>), and day counts are taken
  to be whole numbers, as "N days" says; all the arithmetic involved stays far below
  \<open>2 ^ 53\<close>, or is discarded by \<open>TimeClip\<close>, so it is exact in double precision.
\<close>

type_synonym js_number = "int option"

definition Number_add :: "js_number \<Rightarrow> js_number \<Rightarrow> js_number" where
  "Number_add a b = (case (a, b) of (Some x, Some y) \<Rightarrow> Some (x + y) | _ \<Rightarrow> None)"

definition msPerDay :: int where
  "msPerDay = 86400000"

definition Day :: "int \<Rightarrow> int" where
  "Day t = t div msPerDay"

definition TimeWithinDay :: "int \<Rightarrow> int" where
  "TimeWithinDay t = t mod msPerDay"

definition DaysInYear :: "int \<Rightarrow> int" where
  "DaysInYear y =
     (if y mod 4 \<noteq> 0 then 365
      else if y mod 100 \<noteq> 0 then 366
      else if y mod 400 \<noteq> 0 then 365
      else 366)"

definition DayFromYear :: "int \<Rightarrow> int" where
  "DayFromYear y =
     365 * (y - 1970) + (y - 1969) div 4 - (y - 1901) div 100 + (y - 1601) div 400"

definition TimeFromYear :: "int \<Rightarrow> int" where
  "TimeFromYear y = msPerDay * DayFromYear y"

text \<open>
  ECMA-262 defines \<open>YearFromTime t\<close> as the largest integer \<open>y\<close> with
  \<open>TimeFromYear y \<le> t\<close>. The definition here computes it: the mean Gregorian year has
  \<open>146097 / 400\<close> days, which gives an estimate that is off by at most one year, and the
  estimate is then adjusted. Lemma \<open>YearFromTime_largest\<close> below proves that this is the
  year of the standard.
\<close>

definition YearFromTime :: "int \<Rightarrow> int" where
  "YearFromTime t =
     (let d = Day t; y0 = 1970 + (400 * d) div 146097
      in if DayFromYear (y0 + 1) \<le> d then y0 + 1
         else if DayFromYear y0 \<le> d then y0
         else y0 - 1)"

definition InLeapYear :: "int \<Rightarrow> int" where
  "InLeapYear t = (if DaysInYear (YearFromTime t) = 365 then 0 else 1)"

definition DayWithinYear :: "int \<Rightarrow> int" where
  "DayWithinYear t = Day t - DayFromYear (YearFromTime t)"

definition MonthFromTime :: "int \<Rightarrow> int" where
  "MonthFromTime t =
     (let d = DayWithinYear t; l = InLeapYear t
      in if d < 31 then 0
         else if d < 59 + l then 1
         else if d < 90 + l then 2
         else if d < 120 + l then 3
         else if d < 151 + l then 4
         else if d < 181 + l then 5
         else if d < 212 + l then 6
         else if d < 243 + l then 7
         else if d < 273 + l then 8
         else if d < 304 + l then 9
         else if d < 334 + l then 10
         else 11)"

definition DateFromTime :: "int \<Rightarrow> int" where
  "DateFromTime t =
     (let d = DayWithinYear t; l = InLeapYear t; m = MonthFromTime t
      in if m = 0 then d + 1
         else if m = 1 then d - 30
         else if m = 2 then d - 58 - l
         else if m = 3 then d - 89 - l
         else if m = 4 then d - 119 - l
         else if m = 5 then d - 150 - l
         else if m = 6 then d - 180 - l
         else if m = 7 then d - 211 - l
         else if m = 8 then d - 242 - l
         else if m = 9 then d - 272 - l
         else if m = 10 then d - 303 - l
         else d - 333 - l)"

text \<open>
  \<open>MakeDay\<close>, step 6, asks for a time value \<open>t\<close> whose year is \<open>ym\<close>, whose month is \<open>mn\<close>
  and whose date is 1. \<open>FirstOfMonth ym mn\<close> is that time value: the first day of the year
  plus the days of the months before \<open>mn\<close> (lemma \<open>FirstOfMonth_meets_step6\<close>).
\<close>

definition DaysBeforeMonth :: "int \<Rightarrow> int \<Rightarrow> int" where
  "DaysBeforeMonth l mn =
     (if mn = 0 then 0
      else if mn = 1 then 31
      else if mn = 2 then 59 + l
      else if mn = 3 then 90 + l
      else if mn = 4 then 120 + l
      else if mn = 5 then 151 + l
      else if mn = 6 then 181 + l
      else if mn = 7 then 212 + l
      else if mn = 8 then 243 + l
      else if mn = 9 then 273 + l
      else if mn = 10 then 304 + l
      else 334 + l)"

definition FirstOfMonth :: "int \<Rightarrow> int \<Rightarrow> int" where
  "FirstOfMonth ym mn =
     msPerDay * (DayFromYear ym
                 + DaysBeforeMonth (if DaysInYear ym = 365 then 0 else 1) mn)"

definition MakeDay :: "js_number \<Rightarrow> js_number \<Rightarrow> js_number \<Rightarrow> js_number" where
  "MakeDay year month date =
     (case (year, month, date) of
        (Some y, Some m, Some dt) \<Rightarrow>
          (let ym = y + m div 12; mn = m mod 12; t = FirstOfMonth ym mn
           in Some (Day t + dt - 1))
      | _ \<Rightarrow> None)"

definition MakeDate :: "js_number \<Rightarrow> js_number \<Rightarrow> js_number" where
  "MakeDate day time =
     (case (day, time) of (Some d, Some tm) \<Rightarrow> Some (d * msPerDay + tm) | _ \<Rightarrow> None)"

definition maxTimeValue :: int where
  "maxTimeValue = 8640000000000000"

definition TimeClip :: "js_number \<Rightarrow> js_number" where
  "TimeClip time =
     (case time of
        None \<Rightarrow> None
      | Some t \<Rightarrow> if \<bar>t\<bar> > maxTimeValue then None else Some t)"

text \<open>
  A Date object is its \<^verbatim>\<open>[[DateValue]]\<close> slot: a time value in milliseconds since
  1970-01-01T00:00:00Z, or \<^verbatim>\<open>NaN\<close> (an "Invalid Date"). \<open>Date_new\<close> is \<^verbatim>\<open>new Date(value)\<close> for
  a \<open>value\<close> that is itself a Date; \<open>setUTCDate\<close> returns the object after the assignment.
\<close>

type_synonym Date = js_number

definition Date_new :: "Date \<Rightarrow> Date" where
  "Date_new v = TimeClip v"

definition getUTCDate :: "Date \<Rightarrow> js_number" where
  "getUTCDate d = (case d of None \<Rightarrow> None | Some t \<Rightarrow> Some (DateFromTime t))"

definition setUTCDate :: "Date \<Rightarrow> js_number \<Rightarrow> Date" where
  "setUTCDate d dt =
     (case d of
        None \<Rightarrow> None
      | Some t \<Rightarrow>
          TimeClip (MakeDate (MakeDay (Some (YearFromTime t)) (Some (MonthFromTime t)) dt)
                             (Some (TimeWithinDay t))))"

text \<open>
  \<open>Date_UTC y m d\<close> is \<^verbatim>\<open>new Date(Date.UTC(y, m, d))\<close>: midnight UTC of a calendar day, with
  the months counted from 0. It is used to write the dates of the examples.
\<close>

definition MakeFullYear :: "int \<Rightarrow> int" where
  "MakeFullYear y = (if 0 \<le> y \<and> y \<le> 99 then 1900 + y else y)"

definition Date_UTC :: "int \<Rightarrow> int \<Rightarrow> int \<Rightarrow> Date" where
  "Date_UTC y m d =
     TimeClip (MakeDate (MakeDay (Some (MakeFullYear y)) (Some m) (Some d)) (Some 0))"

section \<open>Errors\<close>

text \<open>
  Every \<^verbatim>\<open>throw\<close> of the file is \<^verbatim>\<open>throw new Error(msg)\<close>. An error value carries the
  \<^verbatim>\<open>name\<close> of its class and its \<^verbatim>\<open>message\<close>. A function that can throw returns
  \<open>js_error + 'a\<close>; for an \<^verbatim>\<open>async\<close> method, \<open>Inl e\<close> is the rejection of the promise it
  returns, which is what \<^verbatim>\<open>await\<close> rethrows.
\<close>

record js_error =
  name :: string
  message :: string

definition Error :: "string \<Rightarrow> js_error" where
  "Error msg = \<lparr>name = ''Error'', message = msg\<rparr>"

section \<open>Domain layer (entities)\<close>

text \<open>
  A class is a record of its fields; a constructor is a function to the record. An optional
  parameter (\<^verbatim>\<open>status = 'Available'\<close>) takes an \<open>option\<close>: \<open>None\<close> is an argument that is
  omitted or \<^verbatim>\<open>undefined\<close>, which is when the default applies. The statuses and the role are
  plain strings, as in the source, which does not validate them. A default of
  \<^verbatim>\<open>new Date()\<close> reads the clock; the constructors that have one take the clock's value
  as \<open>now\<close>.

  \<open>u_class\<close> is the class the object was created from (its prototype), which is what
  \<^verbatim>\<open>instanceof\<close> observes: \<^verbatim>\<open>Student\<close> and \<^verbatim>\<open>Staff\<close> extend \<^verbatim>\<open>User\<close>.
\<close>

datatype user_class = Class_User | Class_Student | Class_Staff

record User =
  u_class :: user_class
  u_id :: string
  u_name :: string
  u_email :: string
  u_role :: string

definition User_new :: "string \<Rightarrow> string \<Rightarrow> string \<Rightarrow> string \<Rightarrow> User" where
  "User_new id' name' email role =
     \<lparr>u_class = Class_User, u_id = id', u_name = name', u_email = email, u_role = role\<rparr>"

definition Student_new :: "string \<Rightarrow> string \<Rightarrow> string \<Rightarrow> User" where
  "Student_new id' name' email = (User_new id' name' email ''Student'')\<lparr>u_class := Class_Student\<rparr>"

definition Staff_new :: "string \<Rightarrow> string \<Rightarrow> string \<Rightarrow> User" where
  "Staff_new id' name' email = (User_new id' name' email ''Staff'')\<lparr>u_class := Class_Staff\<rparr>"

record Equipment =
  eq_id :: string
  eq_name :: string
  eq_category :: string
  eq_status :: string

definition Equipment_new :: "string \<Rightarrow> string \<Rightarrow> string \<Rightarrow> string option \<Rightarrow> Equipment" where
  "Equipment_new id' name' category status =
     \<lparr>eq_id = id', eq_name = name', eq_category = category,
      eq_status = (case status of None \<Rightarrow> ''Available'' | Some s \<Rightarrow> s)\<rparr>"

record LoanRequest =
  lr_id :: string
  lr_studentId :: string
  lr_equipmentId :: string
  lr_startDate :: Date
  lr_endDate :: Date
  lr_status :: string
  lr_createdAt :: Date

definition LoanRequest_new ::
  "Date \<Rightarrow> string \<Rightarrow> string \<Rightarrow> string \<Rightarrow> Date \<Rightarrow> Date \<Rightarrow> string option \<Rightarrow> Date option
     \<Rightarrow> LoanRequest" where
  "LoanRequest_new now id' studentId equipmentId startDate endDate status createdAt =
     \<lparr>lr_id = id', lr_studentId = studentId, lr_equipmentId = equipmentId,
      lr_startDate = startDate, lr_endDate = endDate,
      lr_status = (case status of None \<Rightarrow> ''Pending'' | Some s \<Rightarrow> s),
      lr_createdAt = (case createdAt of None \<Rightarrow> now | Some c \<Rightarrow> c)\<rparr>"

text \<open>\<open>loan_returnedAt = None\<close> is \<^verbatim>\<open>returnedAt === undefined\<close>.\<close>

record Loan =
  loan_id :: string
  loan_studentId :: string
  loan_equipmentId :: string
  loan_startDate :: Date
  loan_dueDate :: Date
  loan_status :: string
  loan_returnedAt :: "Date option"

definition Loan_new ::
  "string \<Rightarrow> string \<Rightarrow> string \<Rightarrow> Date \<Rightarrow> Date \<Rightarrow> string option \<Rightarrow> Date option \<Rightarrow> Loan" where
  "Loan_new id' studentId equipmentId startDate dueDate status returnedAt =
     \<lparr>loan_id = id', loan_studentId = studentId, loan_equipmentId = equipmentId,
      loan_startDate = startDate, loan_dueDate = dueDate,
      loan_status = (case status of None \<Rightarrow> ''Active'' | Some s \<Rightarrow> s),
      loan_returnedAt = returnedAt\<rparr>"

record Fine =
  fine_id :: string
  fine_loanId :: string
  fine_amountCents :: int
  fine_status :: string
  fine_createdAt :: Date
  fine_paidAt :: "Date option"
  fine_receiptRef :: "string option"

definition Fine_new ::
  "Date \<Rightarrow> string \<Rightarrow> string \<Rightarrow> int \<Rightarrow> string option \<Rightarrow> Date option \<Rightarrow> Date option
     \<Rightarrow> string option \<Rightarrow> Fine" where
  "Fine_new now id' loanId amountCents status createdAt paidAt receiptRef =
     \<lparr>fine_id = id', fine_loanId = loanId, fine_amountCents = amountCents,
      fine_status = (case status of None \<Rightarrow> ''Unpaid'' | Some s \<Rightarrow> s),
      fine_createdAt = (case createdAt of None \<Rightarrow> now | Some c \<Rightarrow> c),
      fine_paidAt = paidAt, fine_receiptRef = receiptRef\<rparr>"

section \<open>Policies (Strategy)\<close>

record FixedDaysStrategy =
  days :: int

text \<open>\<^verbatim>\<open>constructor(days = 7)\<close>: an omitted argument is \<open>None\<close>.\<close>

definition FixedDaysStrategy_new :: "int option \<Rightarrow> FixedDaysStrategy" where
  "FixedDaysStrategy_new days_arg =
     \<lparr>days = (case days_arg of None \<Rightarrow> 7 | Some n \<Rightarrow> n)\<rparr>"

definition DueDateStrategy_calculate :: "Date \<Rightarrow> js_error + Date" where
  "DueDateStrategy_calculate startDate = Inl (Error ''Not implemented'')"

definition FixedDaysStrategy_calculate :: "FixedDaysStrategy \<Rightarrow> Date \<Rightarrow> js_error + Date" where
  "FixedDaysStrategy_calculate this startDate =
     (let d = Date_new startDate;
          d = setUTCDate d (Number_add (getUTCDate d) (Some (days this)))
      in Inr d)"

text \<open>
  \<^verbatim>\<open>this.rules[equipment?.category] ?? 7\<close> reads a property of a plain object. \<open>rules\<close> holds
  the object's own properties, a whole number of days each; what is not an own property is looked up
  in \<^verbatim>\<open>Object.prototype\<close>, whose properties are functions (and the object itself, for
  \<^verbatim>\<open>__proto__\<close>), none of them \<^verbatim>\<open>null\<close> or \<^verbatim>\<open>undefined\<close>. A value is therefore a Number,
  \<^verbatim>\<open>undefined\<close>, such an inherited object, or the string that \<^verbatim>\<open>+\<close> makes of a Number and
  an object (\<^verbatim>\<open>"1function Object() { [native code] }"\<close>), which is never a numeric literal.
\<close>

datatype js_value = Number js_number | Undefined | Inherited | NonNumericString

definition Object_prototype_keys :: "string list" where
  "Object_prototype_keys =
     [''constructor'', ''__defineGetter__'', ''__defineSetter__'', ''hasOwnProperty'',
      ''__lookupGetter__'', ''__lookupSetter__'', ''isPrototypeOf'', ''propertyIsEnumerable'',
      ''toString'', ''valueOf'', ''__proto__'', ''toLocaleString'']"

definition Get :: "(string \<rightharpoonup> int) \<Rightarrow> string \<Rightarrow> js_value" where
  "Get own key =
     (case own key of
        Some n \<Rightarrow> Number (Some n)
      | None \<Rightarrow> if key \<in> set Object_prototype_keys then Inherited else Undefined)"

text \<open>\<^verbatim>\<open>v ?? d\<close>, \<^verbatim>\<open>a + v\<close> for a Number \<open>a\<close>, and \<open>ToNumber\<close>.\<close>

definition nullish_coalesce :: "js_value \<Rightarrow> js_value \<Rightarrow> js_value" where
  "nullish_coalesce v d = (case v of Undefined \<Rightarrow> d | _ \<Rightarrow> v)"

definition js_plus :: "js_number \<Rightarrow> js_value \<Rightarrow> js_value" where
  "js_plus a v =
     (case v of
        Number b \<Rightarrow> Number (Number_add a b)
      | Undefined \<Rightarrow> Number None
      | Inherited \<Rightarrow> NonNumericString
      | NonNumericString \<Rightarrow> NonNumericString)"

definition ToNumber :: "js_value \<Rightarrow> js_number" where
  "ToNumber v = (case v of Number n \<Rightarrow> n | _ \<Rightarrow> None)"

record CategoryBasedStrategy =
  rules :: "string \<rightharpoonup> int"

definition CategoryBasedStrategy_new :: "(string \<rightharpoonup> int) option \<Rightarrow> CategoryBasedStrategy" where
  "CategoryBasedStrategy_new rules_arg =
     \<lparr>rules = (case rules_arg of None \<Rightarrow> Map.empty | Some r \<Rightarrow> r)\<rparr>"

text \<open>
  \<^verbatim>\<open>equipment?.category\<close> is \<^verbatim>\<open>undefined\<close> when no equipment is passed, and the property key
  made of \<^verbatim>\<open>undefined\<close> is the string \<^verbatim>\<open>"undefined"\<close>.
\<close>

definition CategoryBasedStrategy_calculate ::
  "CategoryBasedStrategy \<Rightarrow> Date \<Rightarrow> Equipment option \<Rightarrow> js_error + Date" where
  "CategoryBasedStrategy_calculate this startDate equipment =
     (let days = nullish_coalesce
                   (Get (rules this)
                        (case equipment of None \<Rightarrow> ''undefined'' | Some e \<Rightarrow> eq_category e))
                   (Number (Some 7));
          d = Date_new startDate;
          d = setUTCDate d (ToNumber (js_plus (getUTCDate d) days))
      in Inr d)"

section \<open>Ports, services and controllers\<close>

text \<open>
  The repositories, the payment gateway and the mailer are ports: what they hold is the
  state of the system, gathered in \<open>world\<close>. An operation takes the world and returns its
  outcome with the world it leaves behind. \<open>mails\<close> and \<open>charges\<close> record what has been
  handed to the mailer (\<open>to\<close>, \<open>subject\<close>, \<open>body\<close>) and to the gateway (\<open>amountCents\<close>,
  \<open>cardToken\<close>).
\<close>

record world =
  users :: "User list"
  equipment :: "Equipment list"
  loanRequests :: "LoanRequest list"
  loans :: "Loan list"
  fines :: "Fine list"
  mails :: "(string \<times> string \<times> string) list"
  charges :: "(int \<times> string) list"

definition initial_world :: world where
  "initial_world =
     \<lparr>users = [], equipment = [], loanRequests = [], loans = [], fines = [], mails = [],
      charges = []\<rparr>"

subsection \<open>Ports (abstract interfaces)\<close>

definition UserRepo_add :: "world \<Rightarrow> User \<Rightarrow> (js_error + unit) \<times> world" where
  "UserRepo_add w user = (Inl (Error ''NI''), w)"

definition UserRepo_getById :: "world \<Rightarrow> string \<Rightarrow> (js_error + User) \<times> world" where
  "UserRepo_getById w id' = (Inl (Error ''NI''), w)"

definition UserRepo_findByEmail :: "world \<Rightarrow> string \<Rightarrow> (js_error + User) \<times> world" where
  "UserRepo_findByEmail w email = (Inl (Error ''NI''), w)"

definition UserRepo_list :: "world \<Rightarrow> (js_error + User list) \<times> world" where
  "UserRepo_list w = (Inl (Error ''NI''), w)"

definition EquipmentRepo_add :: "world \<Rightarrow> Equipment \<Rightarrow> (js_error + unit) \<times> world" where
  "EquipmentRepo_add w eq = (Inl (Error ''NI''), w)"

definition EquipmentRepo_getById :: "world \<Rightarrow> string \<Rightarrow> (js_error + Equipment) \<times> world" where
  "EquipmentRepo_getById w id' = (Inl (Error ''NI''), w)"

definition EquipmentRepo_listAvailable :: "world \<Rightarrow> (js_error + Equipment list) \<times> world" where
  "EquipmentRepo_listAvailable w = (Inl (Error ''NI''), w)"

definition EquipmentRepo_updateStatus ::
  "world \<Rightarrow> string \<Rightarrow> string \<Rightarrow> (js_error + unit) \<times> world" where
  "EquipmentRepo_updateStatus w id' status = (Inl (Error ''NI''), w)"

definition LoanRequestRepo_add :: "world \<Rightarrow> LoanRequest \<Rightarrow> (js_error + unit) \<times> world" where
  "LoanRequestRepo_add w lr = (Inl (Error ''NI''), w)"

definition LoanRequestRepo_getById ::
  "world \<Rightarrow> string \<Rightarrow> (js_error + LoanRequest) \<times> world" where
  "LoanRequestRepo_getById w id' = (Inl (Error ''NI''), w)"

definition LoanRequestRepo_listPending ::
  "world \<Rightarrow> (js_error + LoanRequest list) \<times> world" where
  "LoanRequestRepo_listPending w = (Inl (Error ''NI''), w)"

definition LoanRequestRepo_updateStatus ::
  "world \<Rightarrow> string \<Rightarrow> string \<Rightarrow> (js_error + unit) \<times> world" where
  "LoanRequestRepo_updateStatus w id' status = (Inl (Error ''NI''), w)"

definition LoanRepo_add :: "world \<Rightarrow> Loan \<Rightarrow> (js_error + unit) \<times> world" where
  "LoanRepo_add w loan = (Inl (Error ''NI''), w)"

definition LoanRepo_getById :: "world \<Rightarrow> string \<Rightarrow> (js_error + Loan) \<times> world" where
  "LoanRepo_getById w id' = (Inl (Error ''NI''), w)"

definition LoanRepo_listActive :: "world \<Rightarrow> (js_error + Loan list) \<times> world" where
  "LoanRepo_listActive w = (Inl (Error ''NI''), w)"

definition LoanRepo_close :: "world \<Rightarrow> string \<Rightarrow> Date \<Rightarrow> (js_error + unit) \<times> world" where
  "LoanRepo_close w id' returnedAt = (Inl (Error ''NI''), w)"

definition FineRepo_create :: "world \<Rightarrow> Fine \<Rightarrow> (js_error + unit) \<times> world" where
  "FineRepo_create w fine = (Inl (Error ''NI''), w)"

definition FineRepo_findByLoan :: "world \<Rightarrow> string \<Rightarrow> (js_error + Fine list) \<times> world" where
  "FineRepo_findByLoan w loanId = (Inl (Error ''NI''), w)"

definition FineRepo_markPaid ::
  "world \<Rightarrow> string \<Rightarrow> string \<Rightarrow> Date \<Rightarrow> (js_error + unit) \<times> world" where
  "FineRepo_markPaid w fineId receiptRef paidAt = (Inl (Error ''NI''), w)"

definition PaymentGateway_charge ::
  "world \<Rightarrow> int \<Rightarrow> string \<Rightarrow> (js_error + string) \<times> world" where
  "PaymentGateway_charge w amountCents cardToken = (Inl (Error ''NI''), w)"

definition Mailer_send ::
  "world \<Rightarrow> string \<Rightarrow> string \<Rightarrow> string \<Rightarrow> (js_error + unit) \<times> world" where
  "Mailer_send w to subject body = (Inl (Error ''NI''), w)"

subsection \<open>Factory\<close>

definition StorageFactory_createRepo :: "world \<Rightarrow> string \<Rightarrow> (js_error + unit) \<times> world" where
  "StorageFactory_createRepo w type' =
     (Inl (Error ''Not implemented (factory returns concrete repos per type)''), w)"

subsection \<open>Services (application layer)\<close>

text \<open>
  The constructors only store the collaborators they are given. The repositories, the
  mailer and the other services act on the world; the collaborators that are pluggable
  functions are fields of the service: the due-date strategy of \<^verbatim>\<open>LoanService\<close>, the
  \<^verbatim>\<open>charge\<close> of the gateway of \<^verbatim>\<open>PaymentService\<close> (from \<open>amountCents\<close> and \<open>cardToken\<close> to a
  receipt reference or an error), and the \<^verbatim>\<open>compute\<close> of the fine policy of
  \<^verbatim>\<open>OverdueService\<close>. Each method evaluates \<^verbatim>\<open>void\<close> on its parameters, which has no effect,
  and throws.
\<close>

datatype DueDateStrategy =
    Strategy_Base
  | Strategy_FixedDays FixedDaysStrategy
  | Strategy_CategoryBased CategoryBasedStrategy

fun calculate :: "DueDateStrategy \<Rightarrow> Date \<Rightarrow> Equipment option \<Rightarrow> js_error + Date" where
  "calculate Strategy_Base startDate equip = DueDateStrategy_calculate startDate"
| "calculate (Strategy_FixedDays s) startDate equip = FixedDaysStrategy_calculate s startDate"
| "calculate (Strategy_CategoryBased s) startDate equip =
     CategoryBasedStrategy_calculate s startDate equip"

record LoanService =
  dueDateStrategy :: DueDateStrategy

record PaymentService =
  gateway :: "int \<Rightarrow> string \<Rightarrow> js_error + string"

record OverdueService =
  finePolicy :: "Loan \<Rightarrow> Date \<Rightarrow> int"

definition AvailabilityService_isAvailable ::
  "world \<Rightarrow> string \<Rightarrow> (Date \<times> Date) option \<Rightarrow> (js_error + bool) \<times> world" where
  "AvailabilityService_isAvailable w equipmentId period = (Inl (Error ''Not implemented''), w)"

definition LoanService_createLoanFromRequest ::
  "LoanService \<Rightarrow> world \<Rightarrow> LoanRequest \<Rightarrow> (js_error + Loan) \<times> world" where
  "LoanService_createLoanFromRequest this w request = (Inl (Error ''Not implemented''), w)"

definition LoanService_returnLoan ::
  "LoanService \<Rightarrow> world \<Rightarrow> string \<Rightarrow> (js_error + unit) \<times> world" where
  "LoanService_returnLoan this w loanId = (Inl (Error ''Not implemented''), w)"

definition NotificationService_send ::
  "world \<Rightarrow> string \<Rightarrow> string \<Rightarrow> (js_error + unit) \<times> world" where
  "NotificationService_send w to message' = (Inl (Error ''Not implemented''), w)"

definition PaymentService_payFine ::
  "PaymentService \<Rightarrow> world \<Rightarrow> string \<Rightarrow> string \<Rightarrow> (js_error + unit) \<times> world" where
  "PaymentService_payFine this w fineId cardToken = (Inl (Error ''Not implemented''), w)"

text \<open>\<^verbatim>\<open>runDailyCheck(now = new Date())\<close>: \<open>now\<close> is the argument, or the clock's value.\<close>

definition OverdueService_runDailyCheck ::
  "OverdueService \<Rightarrow> world \<Rightarrow> Date \<Rightarrow> (js_error + unit) \<times> world" where
  "OverdueService_runDailyCheck this w now = (Inl (Error ''Not implemented''), w)"

subsection \<open>Controllers\<close>

record ApprovalController =
  loanService :: LoanService

record PaymentController =
  paymentService :: PaymentService

definition ApprovalController_submitRequest ::
  "ApprovalController \<Rightarrow> world \<Rightarrow> string \<Rightarrow> string \<Rightarrow> Date \<Rightarrow> Date
     \<Rightarrow> (js_error + string) \<times> world" where
  "ApprovalController_submitRequest this w equipmentId studentId start end' =
     (Inl (Error ''Not implemented''), w)"

definition ApprovalController_reviewRequest ::
  "ApprovalController \<Rightarrow> world \<Rightarrow> string \<Rightarrow> string \<Rightarrow> (js_error + unit) \<times> world" where
  "ApprovalController_reviewRequest this w requestId decision =
     (Inl (Error ''Not implemented''), w)"

definition PaymentController_payFine ::
  "PaymentController \<Rightarrow> world \<Rightarrow> string \<Rightarrow> string \<Rightarrow> (js_error + unit) \<times> world" where
  "PaymentController_payFine this w fineId cardToken =
     PaymentService_payFine (paymentService this) w fineId cardToken"

subsection \<open>Sequences of public operations\<close>

text \<open>
  A call of any exported method, with its arguments. \<open>exec\<close> is the world after the call,
  whatever its outcome, and \<open>run\<close> performs a sequence of calls.
\<close>

datatype operation =
    Call_UserRepo_add User
  | Call_UserRepo_getById string
  | Call_UserRepo_findByEmail string
  | Call_UserRepo_list
  | Call_EquipmentRepo_add Equipment
  | Call_EquipmentRepo_getById string
  | Call_EquipmentRepo_listAvailable
  | Call_EquipmentRepo_updateStatus string string
  | Call_LoanRequestRepo_add LoanRequest
  | Call_LoanRequestRepo_getById string
  | Call_LoanRequestRepo_listPending
  | Call_LoanRequestRepo_updateStatus string string
  | Call_LoanRepo_add Loan
  | Call_LoanRepo_getById string
  | Call_LoanRepo_listActive
  | Call_LoanRepo_close string Date
  | Call_FineRepo_create Fine
  | Call_FineRepo_findByLoan string
  | Call_FineRepo_markPaid string string Date
  | Call_PaymentGateway_charge int string
  | Call_Mailer_send string string string
  | Call_StorageFactory_createRepo string
  | Call_isAvailable string "(Date \<times> Date) option"
  | Call_createLoanFromRequest LoanService LoanRequest
  | Call_returnLoan LoanService string
  | Call_send string string
  | Call_payFine PaymentService string string
  | Call_runDailyCheck OverdueService Date
  | Call_submitRequest ApprovalController string string Date Date
  | Call_reviewRequest ApprovalController string string
  | Call_PaymentController_payFine PaymentController string string

fun exec :: "world \<Rightarrow> operation \<Rightarrow> world" where
  "exec w (Call_UserRepo_add u) = snd (UserRepo_add w u)"
| "exec w (Call_UserRepo_getById i) = snd (UserRepo_getById w i)"
| "exec w (Call_UserRepo_findByEmail e) = snd (UserRepo_findByEmail w e)"
| "exec w Call_UserRepo_list = snd (UserRepo_list w)"
| "exec w (Call_EquipmentRepo_add e) = snd (EquipmentRepo_add w e)"
| "exec w (Call_EquipmentRepo_getById i) = snd (EquipmentRepo_getById w i)"
| "exec w Call_EquipmentRepo_listAvailable = snd (EquipmentRepo_listAvailable w)"
| "exec w (Call_EquipmentRepo_updateStatus i st) = snd (EquipmentRepo_updateStatus w i st)"
| "exec w (Call_LoanRequestRepo_add r) = snd (LoanRequestRepo_add w r)"
| "exec w (Call_LoanRequestRepo_getById i) = snd (LoanRequestRepo_getById w i)"
| "exec w Call_LoanRequestRepo_listPending = snd (LoanRequestRepo_listPending w)"
| "exec w (Call_LoanRequestRepo_updateStatus i st) = snd (LoanRequestRepo_updateStatus w i st)"
| "exec w (Call_LoanRepo_add l) = snd (LoanRepo_add w l)"
| "exec w (Call_LoanRepo_getById i) = snd (LoanRepo_getById w i)"
| "exec w Call_LoanRepo_listActive = snd (LoanRepo_listActive w)"
| "exec w (Call_LoanRepo_close i d) = snd (LoanRepo_close w i d)"
| "exec w (Call_FineRepo_create f) = snd (FineRepo_create w f)"
| "exec w (Call_FineRepo_findByLoan i) = snd (FineRepo_findByLoan w i)"
| "exec w (Call_FineRepo_markPaid i r d) = snd (FineRepo_markPaid w i r d)"
| "exec w (Call_PaymentGateway_charge a c) = snd (PaymentGateway_charge w a c)"
| "exec w (Call_Mailer_send t sb b) = snd (Mailer_send w t sb b)"
| "exec w (Call_StorageFactory_createRepo t) = snd (StorageFactory_createRepo w t)"
| "exec w (Call_isAvailable i p) = snd (AvailabilityService_isAvailable w i p)"
| "exec w (Call_createLoanFromRequest s r) = snd (LoanService_createLoanFromRequest s w r)"
| "exec w (Call_returnLoan s i) = snd (LoanService_returnLoan s w i)"
| "exec w (Call_send t m) = snd (NotificationService_send w t m)"
| "exec w (Call_payFine s i c) = snd (PaymentService_payFine s w i c)"
| "exec w (Call_runDailyCheck s now) = snd (OverdueService_runDailyCheck s w now)"
| "exec w (Call_submitRequest s e st a b) = snd (ApprovalController_submitRequest s w e st a b)"
| "exec w (Call_reviewRequest s i d) = snd (ApprovalController_reviewRequest s w i d)"
| "exec w (Call_PaymentController_payFine s i c) = snd (PaymentController_payFine s w i c)"

fun run :: "world \<Rightarrow> operation list \<Rightarrow> world" where
  "run w [] = w"
| "run w (c # cs) = run (exec w c) cs"

subsection \<open>Observations on a world\<close>

text \<open>
  What the statements below read off a world: the Active loans of an equipment item, the
  fines of a loan, the entity with a given id, and whether every fine is Paid exactly when
  it carries a receipt reference and a payment date.
\<close>

definition activeLoans :: "world \<Rightarrow> string \<Rightarrow> Loan list" where
  "activeLoans w equipmentId =
     filter (\<lambda>l. loan_equipmentId l = equipmentId \<and> loan_status l = ''Active'') (loans w)"

definition finesOfLoan :: "world \<Rightarrow> string \<Rightarrow> Fine list" where
  "finesOfLoan w loanId = filter (\<lambda>f. fine_loanId f = loanId) (fines w)"

definition findLoan :: "world \<Rightarrow> string \<Rightarrow> Loan option" where
  "findLoan w loanId = find (\<lambda>l. loan_id l = loanId) (loans w)"

definition findEquipment :: "world \<Rightarrow> string \<Rightarrow> Equipment option" where
  "findEquipment w equipmentId = find (\<lambda>e. eq_id e = equipmentId) (equipment w)"

definition findFine :: "world \<Rightarrow> string \<Rightarrow> Fine option" where
  "findFine w fineId = find (\<lambda>f. fine_id f = fineId) (fines w)"

definition paidWithReceipt :: "Fine \<Rightarrow> bool" where
  "paidWithReceipt f \<longleftrightarrow>
     (fine_status f = ''Paid'') = (fine_receiptRef f \<noteq> None) \<and>
     (fine_status f = ''Paid'') = (fine_paidAt f \<noteq> None)"

definition isOverdue :: "Loan \<Rightarrow> Date \<Rightarrow> bool" where
  "isOverdue l now =
     (case (now, loan_dueDate l) of (Some n, Some due) \<Rightarrow> n > due | _ \<Rightarrow> False)"

subsection \<open>A sample world\<close>

text \<open>
  One camera on loan to a student since 2024-01-01, due on 2024-01-08 and not returned, and
  one unpaid fine of 500 cents on that loan.
\<close>

definition sample_loan :: Loan where
  "sample_loan =
     Loan_new ''L1'' ''S1'' ''E1'' (Date_UTC 2024 0 1) (Date_UTC 2024 0 8) None None"

definition sample_fine :: Fine where
  "sample_fine =
     Fine_new (Date_UTC 2024 0 9) ''F1'' ''L1'' 500 None None None None"

definition sample_world :: world where
  "sample_world =
     \<lparr>users = [Student_new ''S1'' ''Ann'' ''ann@uni.example''],
      equipment = [Equipment_new ''E1'' ''Camera A'' ''Camera'' (Some ''Loaned'')],
      loanRequests =
        [LoanRequest_new (Date_UTC 2023 11 20) ''R1'' ''S1'' ''E1'' (Date_UTC 2024 0 1)
           (Date_UTC 2024 0 8) (Some ''Approved'') None],
      loans = [sample_loan],
      fines = [sample_fine],
      mails = [],
      charges = []\<rparr>"

text \<open>The same world before any fine has been created.\<close>

definition sample_world_no_fine :: world where
  "sample_world_no_fine = sample_world\<lparr>fines := []\<rparr>"

text \<open>
  Collaborators for the examples: a gateway that accepts every charge, a fine policy that
  charges 500 cents, and the services built on them.
\<close>

definition accepting_gateway :: "int \<Rightarrow> string \<Rightarrow> js_error + string" where
  "accepting_gateway amountCents cardToken = Inr ''receipt-0001''"

definition sample_paymentService :: PaymentService where
  "sample_paymentService = \<lparr>gateway = accepting_gateway\<rparr>"

definition flat_finePolicy :: "Loan \<Rightarrow> Date \<Rightarrow> int" where
  "flat_finePolicy loan now = 500"

definition sample_overdueService :: OverdueService where
  "sample_overdueService = \<lparr>finePolicy = flat_finePolicy\<rparr>"

definition sample_loanService :: LoanService where
  "sample_loanService = \<lparr>dueDateStrategy = Strategy_FixedDays (FixedDaysStrategy_new None)\<rparr>"

definition sample_approvalController :: ApprovalController where
  "sample_approvalController = \<lparr>loanService = sample_loanService\<rparr>"

text \<open>\<open>sweeps this w nows\<close>: the overdue sweep invoked once for each \<open>now\<close> of the list, in turn.\<close>

definition sweeps :: "OverdueService \<Rightarrow> world \<Rightarrow> Date list \<Rightarrow> world" where
  "sweeps this w nows = run w (map (Call_runDailyCheck this) nows)"

text \<open>The rules of the specification's example, \<^verbatim>\<open>{ Camera: 3 }\<close>.\<close>

definition camera_rules :: "string \<rightharpoonup> int" where
  "camera_rules = [''Camera'' \<mapsto> 3]"

text \<open>
  A second, approved request for the camera that is already on loan, and a sequence of
  calls that tries to lend it out again.
\<close>

definition sample_request :: LoanRequest where
  "sample_request =
     LoanRequest_new (Date_UTC 2024 0 2) ''R2'' ''S2'' ''E1'' (Date_UTC 2024 0 3)
       (Date_UTC 2024 0 5) (Some ''Approved'') None"

definition sample_calls :: "operation list" where
  "sample_calls =
     [Call_createLoanFromRequest sample_loanService sample_request,
      Call_LoanRepo_add
        (Loan_new ''L2'' ''S2'' ''E1'' (Date_UTC 2024 0 3) (Date_UTC 2024 0 10) None None),
      Call_reviewRequest sample_approvalController ''R2'' ''Approve'',
      Call_returnLoan sample_loanService ''L1'']"

section \<open>The calendar of ECMA-262\<close>

text \<open>
  The lemmas of this section relate the computed \<open>YearFromTime\<close> and \<open>FirstOfMonth\<close> to
  the text of the standard, and derive what \<^verbatim>\<open>setUTCDate(getUTCDate() + n)\<close> does to a time
  value.
\<close>

lemma div_succ:
  fixes a k :: int
  assumes k: "0 < k"
  shows "(a + 1) div k = a div k + (if (a + 1) mod k = 0 then 1 else 0)"
proof -
  define q where "q = a div k"
  define r where "r = a mod k"
  have a: "a = q * k + r"
    by (simp add: q_def r_def)
  have r: "0 \<le> r" "r < k"
    using k by (simp_all add: r_def)
  show ?thesis
  proof (cases "r + 1 = k")
    case True
    then have e: "a + 1 = (q + 1) * k"
      using a by (simp add: algebra_simps)
    have "(a + 1) div k = q + 1" "(a + 1) mod k = 0"
      using k unfolding e by simp_all
    then show ?thesis
      by (simp add: q_def)
  next
    case False
    then have lt: "r + 1 < k" "0 \<le> r + 1"
      using r by simp_all
    have e: "a + 1 = (r + 1) + q * k"
      using a by simp
    have "(a + 1) div k = q" "(a + 1) mod k = r + 1"
      using lt unfolding e by simp_all
    then show ?thesis
      using r by (simp add: q_def)
  qed
qed

lemma mod_shift:
  fixes y :: int
  shows "(y - 1969 + 1) mod 4 = y mod 4" "(y - 1901 + 1) mod 100 = y mod 100"
    "(y - 1601 + 1) mod 400 = y mod 400"
  using mod_mult_self1 [of y "- 492" 4] mod_mult_self1 [of y "- 19" 100]
    mod_mult_self1 [of y "- 4" 400]
  by simp_all

lemma leap_divisors:
  fixes y :: int
  shows "y mod 100 = 0 \<Longrightarrow> y mod 4 = 0" "y mod 400 = 0 \<Longrightarrow> y mod 100 = 0"
  using dvd_trans [of 4 100 y] dvd_trans [of 100 400 y]
  by (simp_all add: mod_eq_0_iff_dvd)

lemma DayFromYear_Suc: "DayFromYear (y + 1) = DayFromYear y + DaysInYear y"
proof -
  have a: "(y - 1969 + 1) div 4 = (y - 1969) div 4 + (if y mod 4 = 0 then 1 else 0)"
    using div_succ [of 4 "y - 1969"] unfolding mod_shift by simp
  have b: "(y - 1901 + 1) div 100 = (y - 1901) div 100 + (if y mod 100 = 0 then 1 else 0)"
    using div_succ [of 100 "y - 1901"] unfolding mod_shift by simp
  have c: "(y - 1601 + 1) div 400 = (y - 1601) div 400 + (if y mod 400 = 0 then 1 else 0)"
    using div_succ [of 400 "y - 1601"] unfolding mod_shift by simp
  have e: "y + 1 - 1969 = y - 1969 + 1" "y + 1 - 1901 = y - 1901 + 1"
    "y + 1 - 1601 = y - 1601 + 1"
    by simp_all
  show ?thesis
    unfolding DayFromYear_def DaysInYear_def e a b c
    using leap_divisors [of y] by (simp split: if_splits)
qed

lemma DayFromYear_bounds:
  "146097 * (y - 1970) - 506 \<le> 400 * DayFromYear y"
  "400 * DayFromYear y \<le> 146097 * (y - 1970) + 589"
proof -
  define qa ra where "qa = (y - 1969) div 4" and "ra = (y - 1969) mod 4"
  define qb rb where "qb = (y - 1901) div 100" and "rb = (y - 1901) mod 100"
  define qc rc where "qc = (y - 1601) div 400" and "rc = (y - 1601) mod 400"
  have eqs: "4 * qa + ra = y - 1969" "100 * qb + rb = y - 1901" "400 * qc + rc = y - 1601"
    by (simp_all add: qa_def ra_def qb_def rb_def qc_def rc_def)
  have bnd: "0 \<le> ra" "ra < 4" "0 \<le> rb" "rb < 100" "0 \<le> rc" "rc < 400"
    by (simp_all add: ra_def rb_def rc_def)
  have a: "400 * qa = 100 * (y - 1969) - 100 * ra"
    using eqs(1) by (simp add: algebra_simps)
  have b: "400 * qb = 4 * (y - 1901) - 4 * rb"
    using eqs(2) by (simp add: algebra_simps)
  have c: "400 * qc = (y - 1601) - rc"
    using eqs(3) by (simp add: algebra_simps)
  have "400 * DayFromYear y = 146000 * (y - 1970) + 400 * qa - 400 * qb + 400 * qc"
    by (simp add: DayFromYear_def qa_def qb_def qc_def algebra_simps)
  also have "\<dots> = 146097 * (y - 1970) + 193 - 100 * ra + 4 * rb - rc"
    unfolding a b c by (simp add: algebra_simps)
  finally have D: "400 * DayFromYear y = 146097 * (y - 1970) + 193 - 100 * ra + 4 * rb - rc" .
  show "146097 * (y - 1970) - 506 \<le> 400 * DayFromYear y"
    unfolding D using bnd by linarith
  show "400 * DayFromYear y \<le> 146097 * (y - 1970) + 589"
    unfolding D using bnd by linarith
qed

lemma YearFromTime_bounds:
  "DayFromYear (YearFromTime t) \<le> Day t" "Day t < DayFromYear (YearFromTime t + 1)"
proof -
  define d where "d = Day t"
  define q r where "q = (400 * d) div 146097" and "r = (400 * d) mod 146097"
  have qr: "146097 * q + r = 400 * d" "0 \<le> r" "r < 146097"
    by (simp_all add: q_def r_def)
  have "400 * DayFromYear (1970 + q - 1) \<le> 400 * d"
    using DayFromYear_bounds(2) [of "1970 + q - 1"] qr by simp
  then have lo: "DayFromYear (1970 + q - 1) \<le> d"
    by simp
  have "400 * d < 400 * DayFromYear (1970 + q + 1 + 1)"
    using DayFromYear_bounds(1) [of "1970 + q + 1 + 1"] qr by simp
  then have hi: "d < DayFromYear (1970 + q + 1 + 1)"
    by simp
  have Y: "YearFromTime t =
      (if DayFromYear (1970 + q + 1) \<le> d then 1970 + q + 1
       else if DayFromYear (1970 + q) \<le> d then 1970 + q else 1970 + q - 1)"
    by (simp add: YearFromTime_def Let_def d_def q_def)
  show "DayFromYear (YearFromTime t) \<le> Day t"
    unfolding Y d_def [symmetric] using lo by simp
  show "Day t < DayFromYear (YearFromTime t + 1)"
    unfolding Y d_def [symmetric] using hi by (simp add: add.commute add.left_commute) 
qed

lemma DayFromYear_strict: "DayFromYear y < DayFromYear (y + 1)"
  unfolding DayFromYear_Suc by (simp add: DaysInYear_def)

lemma DayFromYear_mono: "y \<le> y' \<Longrightarrow> DayFromYear y \<le> DayFromYear y'"
proof (induction y' rule: int_ge_induct)
  case base
  show ?case by simp
next
  case (step i)
  then show ?case using DayFromYear_strict [of i] by simp
qed

lemma YearFromTime_unique:
  assumes "DayFromYear y \<le> Day t" and "Day t < DayFromYear (y + 1)"
  shows "YearFromTime t = y"
proof (rule ccontr)
  assume ne: "YearFromTime t \<noteq> y"
  show False
  proof (cases "YearFromTime t < y")
    case True
    then have "DayFromYear (YearFromTime t + 1) \<le> DayFromYear y"
      by (intro DayFromYear_mono) simp
    then show False
      using YearFromTime_bounds(2) [of t] assms(1) by simp
  next
    case False
    then have "DayFromYear (y + 1) \<le> DayFromYear (YearFromTime t)"
      using ne by (intro DayFromYear_mono) simp
    then show False
      using YearFromTime_bounds(1) [of t] assms(2) by simp
  qed
qed

lemma TimeFromYear_le_iff: "TimeFromYear y \<le> t \<longleftrightarrow> DayFromYear y \<le> Day t"
proof
  assume "TimeFromYear y \<le> t"
  then have "(msPerDay * DayFromYear y) div msPerDay \<le> t div msPerDay"
    unfolding TimeFromYear_def by (intro zdiv_mono1) (simp_all add: msPerDay_def)
  then show "DayFromYear y \<le> Day t"
    by (simp add: Day_def msPerDay_def)
next
  assume "DayFromYear y \<le> Day t"
  then have "msPerDay * DayFromYear y \<le> msPerDay * (t div msPerDay)"
    by (simp add: Day_def msPerDay_def)
  also have "\<dots> \<le> t"
    by (simp add: msPerDay_def)
  finally show "TimeFromYear y \<le> t"
    by (simp add: TimeFromYear_def)
qed

lemma YearFromTime_largest:
  "TimeFromYear (YearFromTime t) \<le> t"
  "TimeFromYear y \<le> t \<Longrightarrow> y \<le> YearFromTime t"
proof -
  show "TimeFromYear (YearFromTime t) \<le> t"
    unfolding TimeFromYear_le_iff by (rule YearFromTime_bounds)
  assume "TimeFromYear y \<le> t"
  then have le: "DayFromYear y \<le> Day t"
    unfolding TimeFromYear_le_iff .
  show "y \<le> YearFromTime t"
  proof (rule ccontr)
    assume "\<not> y \<le> YearFromTime t"
    then have "DayFromYear (YearFromTime t + 1) \<le> DayFromYear y"
      by (intro DayFromYear_mono) simp
    then show False
      using YearFromTime_bounds(2) [of t] le by simp
  qed
qed

lemma MonthFromTime_range: "0 \<le> MonthFromTime t" "MonthFromTime t \<le> 11"
  by (simp_all add: MonthFromTime_def Let_def)

lemma DateFromTime_DaysBeforeMonth:
  "DateFromTime t = DayWithinYear t - DaysBeforeMonth (InLeapYear t) (MonthFromTime t) + 1"
  by (simp add: DateFromTime_def DaysBeforeMonth_def Let_def)

lemma Day_FirstOfMonth:
  "Day (FirstOfMonth ym mn) =
     DayFromYear ym + DaysBeforeMonth (if DaysInYear ym = 365 then 0 else 1) mn"
  by (simp add: Day_def FirstOfMonth_def msPerDay_def)

lemma MakeDay_same_month:
  "MakeDay (Some (YearFromTime t)) (Some (MonthFromTime t)) (Some dt) =
     Some (Day t + (dt - DateFromTime t))"
proof -
  have m: "MonthFromTime t div 12 = 0" "MonthFromTime t mod 12 = MonthFromTime t"
    using MonthFromTime_range [of t] by simp_all
  show ?thesis
    unfolding MakeDay_def
    by (simp add: m Let_def Day_FirstOfMonth DateFromTime_DaysBeforeMonth InLeapYear_def
        DayWithinYear_def)
qed

lemma setUTCDate_shift:
  "setUTCDate (Some t) (Number_add (getUTCDate (Some t)) (Some n)) =
     TimeClip (Some (t + n * msPerDay))"
proof -
  have "(Day t + n) * msPerDay + TimeWithinDay t = t + n * msPerDay"
    by (simp add: Day_def TimeWithinDay_def algebra_simps)
  then show ?thesis
    by (simp add: setUTCDate_def getUTCDate_def Number_add_def MakeDay_same_month MakeDate_def)
qed

lemma month_cases:
  fixes mn :: int
  assumes "0 \<le> mn" "mn \<le> 11"
  shows "mn = 0 \<or> mn = 1 \<or> mn = 2 \<or> mn = 3 \<or> mn = 4 \<or> mn = 5 \<or> mn = 6 \<or> mn = 7
    \<or> mn = 8 \<or> mn = 9 \<or> mn = 10 \<or> mn = 11"
  using assms by arith

lemma DaysInYear_cases: "DaysInYear y = 365 \<or> DaysInYear y = 366"
  by (simp add: DaysInYear_def)

lemma FirstOfMonth_meets_step6:
  assumes "0 \<le> mn" "mn \<le> 11"
  shows "YearFromTime (FirstOfMonth ym mn) = ym"
    and "MonthFromTime (FirstOfMonth ym mn) = mn"
    and "DateFromTime (FirstOfMonth ym mn) = 1"
proof -
  define l :: int where "l = (if DaysInYear ym = 365 then 0 else 1)"
  define t where "t = FirstOfMonth ym mn"
  have D: "Day t = DayFromYear ym + DaysBeforeMonth l mn"
    by (simp add: t_def l_def Day_FirstOfMonth)
  have mn: "mn = 0 \<or> mn = 1 \<or> mn = 2 \<or> mn = 3 \<or> mn = 4 \<or> mn = 5 \<or> mn = 6 \<or> mn = 7
    \<or> mn = 8 \<or> mn = 9 \<or> mn = 10 \<or> mn = 11"
    using assms by (rule month_cases)
  have l01: "l = 0 \<or> l = 1"
    by (simp add: l_def)
  have diy: "DaysInYear ym = 365 + l"
    using DaysInYear_cases [of ym] by (auto simp: l_def)
  have b: "0 \<le> DaysBeforeMonth l mn" "DaysBeforeMonth l mn < DaysInYear ym"
    unfolding diy DaysBeforeMonth_def using l01 by (elim disjE; simp)+
  have Y: "YearFromTime t = ym"
    by (rule YearFromTime_unique) (use b in \<open>simp_all add: D DayFromYear_Suc\<close>)
  then show "YearFromTime (FirstOfMonth ym mn) = ym"
    by (simp add: t_def)
  have L: "InLeapYear t = l"
    by (simp add: InLeapYear_def Y l_def)
  have W: "DayWithinYear t = DaysBeforeMonth l mn"
    by (simp add: DayWithinYear_def Y D)
  have M: "MonthFromTime t = mn"
    unfolding MonthFromTime_def L W Let_def DaysBeforeMonth_def
    using mn l01 by (elim disjE; simp)
  then show "MonthFromTime (FirstOfMonth ym mn) = mn"
    by (simp add: t_def)
  have "DateFromTime t = 1"
    unfolding DateFromTime_DaysBeforeMonth L W M by simp
  then show "DateFromTime (FirstOfMonth ym mn) = 1"
    by (simp add: t_def)
qed

section \<open>Date objects\<close>

text \<open>
  What the two strategies need of \<^verbatim>\<open>new Date(d)\<close> and \<^verbatim>\<open>setUTCDate\<close>: a valid Date is copied,
  an Invalid Date stays invalid, adding whole days changes the day number and keeps the
  time within the day, and a day count that is not a Number makes the Date invalid.
\<close>

lemma Date_new_in_range: "\<bar>t\<bar> \<le> maxTimeValue \<Longrightarrow> Date_new (Some t) = Some t"
  by (simp add: Date_new_def TimeClip_def)

lemma Date_new_out_of_range: "\<not> \<bar>t\<bar> \<le> maxTimeValue \<Longrightarrow> Date_new (Some t) = None"
  by (simp add: Date_new_def TimeClip_def)

lemma TimeClip_if:
  "TimeClip (Some t) = (if \<bar>t\<bar> \<le> maxTimeValue then Some t else None)"
  by (simp add: TimeClip_def)

lemma setUTCDate_Invalid: "setUTCDate None dt = None"
  by (simp add: setUTCDate_def)

lemma Day_shift: "Day (t + n * msPerDay) = Day t + n"
  by (simp add: Day_def msPerDay_def)

lemma TimeWithinDay_shift: "TimeWithinDay (t + n * msPerDay) = TimeWithinDay t"
  by (simp add: TimeWithinDay_def msPerDay_def)

text \<open>The time values of the dates used in the examples.\<close>

lemma sample_dates:
  "Date_UTC 2023 11 20 = Some 1703030400000"
  "Date_UTC 2024 0 1 = Some 1704067200000"
  "Date_UTC 2024 0 4 = Some 1704326400000"
  "Date_UTC 2024 0 8 = Some 1704672000000"
  "Date_UTC 2024 0 9 = Some 1704758400000"
  "Date_UTC 2024 1 1 = Some 1706745600000"
  "Date_UTC 2024 2 1 = Some 1709251200000"
  "Date_UTC 2024 2 5 = Some 1709596800000"
  by code_simp+

lemma setUTCDate_NaN: "setUTCDate d None = None"
  by (cases d) (simp_all add: setUTCDate_def MakeDay_def MakeDate_def TimeClip_def)

lemma setUTCDate_plus_value:
  "setUTCDate (Some t) (ToNumber (js_plus (getUTCDate (Some t)) v)) =
     (case v of Number (Some n) \<Rightarrow> TimeClip (Some (t + n * msPerDay)) | _ \<Rightarrow> None)"
proof (cases v)
  case (Number x)
  show ?thesis
  proof (cases x)
    case None
    then show ?thesis
      using Number by (simp add: ToNumber_def js_plus_def Number_add_def getUTCDate_def
          setUTCDate_NaN)
  next
    case (Some n)
    have "ToNumber (js_plus (getUTCDate (Some t)) (Number (Some n))) =
        Number_add (getUTCDate (Some t)) (Some n)"
      by (simp add: ToNumber_def js_plus_def)
    then show ?thesis
      using Number Some by (simp add: setUTCDate_shift)
  qed
qed (simp_all add: ToNumber_def js_plus_def setUTCDate_NaN)

lemma CategoryBased_unfold:
  "CategoryBasedStrategy_calculate this (Some t) equip =
     Inr (case nullish_coalesce
                 (Get (rules this)
                      (case equip of None \<Rightarrow> ''undefined'' | Some e \<Rightarrow> eq_category e))
                 (Number (Some 7)) of
            Number (Some n) \<Rightarrow>
              if \<bar>t\<bar> \<le> maxTimeValue \<and> \<bar>t + n * msPerDay\<bar> \<le> maxTimeValue
              then Some (t + n * msPerDay) else None
          | _ \<Rightarrow> None)"
proof (cases "\<bar>t\<bar> \<le> maxTimeValue")
  case True
  then show ?thesis
    unfolding CategoryBasedStrategy_calculate_def Let_def
    by (simp add: Date_new_in_range setUTCDate_plus_value TimeClip_if
        split: js_value.splits option.splits)
next
  case False
  then show ?thesis
    unfolding CategoryBasedStrategy_calculate_def Let_def
    by (simp add: Date_new_out_of_range setUTCDate_Invalid split: js_value.splits option.splits)
qed

section \<open>Calls leave the world unchanged\<close>

lemma exec_unchanged: "exec w c = w"
  by (cases c)
    (simp_all add: UserRepo_add_def UserRepo_getById_def UserRepo_findByEmail_def
      UserRepo_list_def EquipmentRepo_add_def EquipmentRepo_getById_def
      EquipmentRepo_listAvailable_def EquipmentRepo_updateStatus_def LoanRequestRepo_add_def
      LoanRequestRepo_getById_def LoanRequestRepo_listPending_def
      LoanRequestRepo_updateStatus_def LoanRepo_add_def LoanRepo_getById_def
      LoanRepo_listActive_def LoanRepo_close_def FineRepo_create_def FineRepo_findByLoan_def
      FineRepo_markPaid_def PaymentGateway_charge_def Mailer_send_def
      StorageFactory_createRepo_def AvailabilityService_isAvailable_def
      LoanService_createLoanFromRequest_def LoanService_returnLoan_def
      NotificationService_send_def PaymentService_payFine_def OverdueService_runDailyCheck_def
      ApprovalController_submitRequest_def ApprovalController_reviewRequest_def
      PaymentController_payFine_def)

lemma run_unchanged: "run w cs = w"
  by (induction cs arbitrary: w) (simp_all add: exec_unchanged)

section \<open>Due-date policies\<close>

text \<open>
  Claim C1, as the code has it. For a start date with time value \<open>t\<close> and a strategy
  configured with \<open>N = days this\<close> whole days (7 when the constructor gets no argument),
  \<^verbatim>\<open>FixedDaysStrategy.calculate\<close> returns the Date \<open>t + N * msPerDay\<close>: the UTC day number
  grows by \<open>N\<close> and the time within the day is kept, with no adjustment for weekends or
  holidays. This holds whenever the start date is valid and the sum lies in the range of
  Date, \<open>8.64e15\<close> milliseconds on either side of the epoch; otherwise the result is an
  Invalid Date. It never throws. For the start date 2024-01-01 and \<open>N = 7\<close> it returns
  2024-01-08.
\<close>

theorem FixedDaysStrategy_calculate_adds_days:
  "FixedDaysStrategy_calculate this (Some t) =
     Inr (if \<bar>t\<bar> \<le> maxTimeValue \<and> \<bar>t + days this * msPerDay\<bar> \<le> maxTimeValue
          then Some (t + days this * msPerDay) else None)
   \<and> FixedDaysStrategy_calculate this None = Inr None
   \<and> Day (t + days this * msPerDay) = Day t + days this
   \<and> TimeWithinDay (t + days this * msPerDay) = TimeWithinDay t
   \<and> days (FixedDaysStrategy_new None) = 7
   \<and> days (FixedDaysStrategy_new (Some n)) = n
   \<and> FixedDaysStrategy_calculate (FixedDaysStrategy_new None) (Date_UTC 2024 0 1) =
       Inr (Date_UTC 2024 0 8)"
proof -
  have general: "FixedDaysStrategy_calculate s (Some u) =
     Inr (if \<bar>u\<bar> \<le> maxTimeValue \<and> \<bar>u + days s * msPerDay\<bar> \<le> maxTimeValue
          then Some (u + days s * msPerDay) else None)" for s u
  proof (cases "\<bar>u\<bar> \<le> maxTimeValue")
    case True
    then show ?thesis
      by (simp add: FixedDaysStrategy_calculate_def Let_def Date_new_in_range setUTCDate_shift
          TimeClip_if)
  next
    case False
    then show ?thesis
      by (simp add: FixedDaysStrategy_calculate_def Let_def Date_new_out_of_range
          setUTCDate_Invalid)
  qed
  have invalid: "FixedDaysStrategy_calculate this None = Inr None"
    by (simp add: FixedDaysStrategy_calculate_def Let_def Date_new_def TimeClip_def
        setUTCDate_Invalid)
  have dflt: "days (FixedDaysStrategy_new None) = 7" "days (FixedDaysStrategy_new (Some n)) = n"
    by (simp_all add: FixedDaysStrategy_new_def)
  have example: "FixedDaysStrategy_calculate (FixedDaysStrategy_new None) (Date_UTC 2024 0 1) =
       Inr (Date_UTC 2024 0 8)"
    unfolding sample_dates general dflt
    by (simp add: maxTimeValue_def msPerDay_def)
  show ?thesis
    using general [of this t] invalid dflt example Day_shift [of t "days this"]
      TimeWithinDay_shift [of t "days this"]
    by blast
qed

text \<open>
  An instance across a leap day: seven days after 2024-02-27T13:45:00Z is
  2024-03-05T13:45:00Z.
\<close>

theorem FixedDaysStrategy_calculate_adds_days_witness:
  "FixedDaysStrategy_calculate (FixedDaysStrategy_new None) (Some 1709041500000) =
     Inr (Some 1709646300000)
   \<and> (YearFromTime 1709041500000, MonthFromTime 1709041500000, DateFromTime 1709041500000) =
       (2024, 1, 27)
   \<and> (YearFromTime 1709646300000, MonthFromTime 1709646300000, DateFromTime 1709646300000) =
       (2024, 2, 5)
   \<and> TimeWithinDay 1709646300000 = TimeWithinDay 1709041500000"
proof -
  have fields:
    "(YearFromTime 1709041500000, MonthFromTime 1709041500000, DateFromTime 1709041500000) =
       (2024, 1, 27)"
    "(YearFromTime 1709646300000, MonthFromTime 1709646300000, DateFromTime 1709646300000) =
       (2024, 2, 5)"
    "TimeWithinDay 1709646300000 = TimeWithinDay 1709041500000"
    by code_simp+
  have "FixedDaysStrategy_calculate (FixedDaysStrategy_new None) (Some 1709041500000) =
     Inr (Some 1709646300000)"
    using FixedDaysStrategy_calculate_adds_days [of "FixedDaysStrategy_new None" 1709041500000]
    by (simp add: maxTimeValue_def msPerDay_def)
  then show ?thesis
    using fields by simp
qed

text \<open>
  The wording "for every start date" of C1 fails at the end of the range: the last
  representable instant, 275760-09-13T00:00:00Z, is a valid Date, and seven days later is
  not; the result is an Invalid Date.
\<close>

theorem FixedDaysStrategy_calculate_counterexample:
  "Date_new (Some 8640000000000000) = Some 8640000000000000
   \<and> FixedDaysStrategy_calculate (FixedDaysStrategy_new None) (Some 8640000000000000) = Inr None"
  by (simp add: FixedDaysStrategy_calculate_def FixedDaysStrategy_new_def Let_def Date_new_def
      TimeClip_def setUTCDate_shift maxTimeValue_def msPerDay_def)

text \<open>
  Claim C2, as the code has it. The rules are whole numbers of days.
  \<^verbatim>\<open>CategoryBasedStrategy.calculate\<close> always returns a Date and never throws, whatever the
  start date and whether or not an equipment is passed. For an Invalid Date it returns an
  Invalid Date, whatever the equipment. For a start date with time value \<open>t\<close> and an
  equipment whose category has a rule of its own, or whose category is not the name of a
  property that every object inherits from \<^verbatim>\<open>Object.prototype\<close>, it returns the start date
  plus \<open>n\<close> days, where \<open>n\<close> is the rule of the category, or 7 when the category has none:
  the Date \<open>t + n * msPerDay\<close> when the start date is valid and the sum is in the range of
  Date, an Invalid Date otherwise.
\<close>

theorem CategoryBasedStrategy_calculate_adds_rule_days:
  "(\<exists>d. CategoryBasedStrategy_calculate this startDate equip = Inr d)
   \<and> CategoryBasedStrategy_calculate this None equip = Inr None
   \<and> (rules this (eq_category e) \<noteq> None \<or> eq_category e \<notin> set Object_prototype_keys \<longrightarrow>
        CategoryBasedStrategy_calculate this (Some t) (Some e) =
          Inr (let n = (case rules this (eq_category e) of Some k \<Rightarrow> k | None \<Rightarrow> 7)
               in if \<bar>t\<bar> \<le> maxTimeValue \<and> \<bar>t + n * msPerDay\<bar> \<le> maxTimeValue
                  then Some (t + n * msPerDay) else None))"
proof -
  have total: "\<exists>d. CategoryBasedStrategy_calculate this startDate equip = Inr d"
    by (simp add: CategoryBasedStrategy_calculate_def Let_def)
  have invalid: "CategoryBasedStrategy_calculate this None equip = Inr None"
    by (simp add: CategoryBasedStrategy_calculate_def Let_def Date_new_def TimeClip_def
        setUTCDate_Invalid)
  have days: "CategoryBasedStrategy_calculate this (Some t) (Some e) =
          Inr (let n = (case rules this (eq_category e) of Some k \<Rightarrow> k | None \<Rightarrow> 7)
               in if \<bar>t\<bar> \<le> maxTimeValue \<and> \<bar>t + n * msPerDay\<bar> \<le> maxTimeValue
                  then Some (t + n * msPerDay) else None)"
    if "rules this (eq_category e) \<noteq> None \<or> eq_category e \<notin> set Object_prototype_keys"
    unfolding CategoryBased_unfold using that
    by (auto simp: Get_def nullish_coalesce_def Let_def split: option.splits)
  show ?thesis
    using total invalid days by blast
qed

text \<open>
  The example of the specification: with the rules \<^verbatim>\<open>{ Camera: 3 }\<close> and the start date
  2024-01-01, a camera is due on 2024-01-04 and a chair, which has no rule, on 2024-01-08;
  and for an Invalid Date the due date of the camera is an Invalid Date.
\<close>

theorem CategoryBasedStrategy_calculate_adds_rule_days_witness:
  "CategoryBasedStrategy_calculate (CategoryBasedStrategy_new (Some camera_rules))
      (Date_UTC 2024 0 1) (Some (Equipment_new ''E1'' ''Camera A'' ''Camera'' None)) =
     Inr (Date_UTC 2024 0 4)
   \<and> CategoryBasedStrategy_calculate (CategoryBasedStrategy_new (Some camera_rules))
      (Date_UTC 2024 0 1) (Some (Equipment_new ''E2'' ''Chair B'' ''Chair'' None)) =
     Inr (Date_UTC 2024 0 8)
   \<and> CategoryBasedStrategy_calculate (CategoryBasedStrategy_new (Some camera_rules))
      None (Some (Equipment_new ''E1'' ''Camera A'' ''Camera'' None)) =
     Inr None"
proof -
  let ?s = "CategoryBasedStrategy_new (Some camera_rules)"
  let ?cam = "Equipment_new ''E1'' ''Camera A'' ''Camera'' None"
  let ?chair = "Equipment_new ''E2'' ''Chair B'' ''Chair'' None"
  have r: "rules ?s (eq_category ?cam) = Some 3" "rules ?s (eq_category ?chair) = None"
    "eq_category ?chair \<notin> set Object_prototype_keys"
    by (simp_all add: CategoryBasedStrategy_new_def camera_rules_def Equipment_new_def
        Object_prototype_keys_def)
  have a: "CategoryBasedStrategy_calculate ?s (Date_UTC 2024 0 1) (Some ?cam) =
      Inr (Date_UTC 2024 0 4)"
    using CategoryBasedStrategy_calculate_adds_rule_days [of ?s None None ?cam 1704067200000]
    unfolding sample_dates r
    by (simp add: maxTimeValue_def msPerDay_def)
  have b: "CategoryBasedStrategy_calculate ?s (Date_UTC 2024 0 1) (Some ?chair) =
      Inr (Date_UTC 2024 0 8)"
    using CategoryBasedStrategy_calculate_adds_rule_days [of ?s None None ?chair 1704067200000] r(3)
    unfolding sample_dates r(2)
    by (simp add: maxTimeValue_def msPerDay_def)
  have c: "CategoryBasedStrategy_calculate ?s None (Some ?cam) = Inr None"
    using CategoryBasedStrategy_calculate_adds_rule_days [of ?s None "Some ?cam" ?cam 0]
    by simp
  show ?thesis
    using a b c by simp
qed

text \<open>
  The wording of C2 fails in two places. At the end of the range of Date the sum is not
  a Date, as for C1. And a category without a rule does not always get 7 days: for the
  category \<^verbatim>\<open>"constructor"\<close>, \<^verbatim>\<open>rules["constructor"]\<close> is the function inherited from
  \<^verbatim>\<open>Object.prototype\<close>, which \<^verbatim>\<open>??\<close> keeps, and the result is an Invalid Date.
\<close>

theorem CategoryBasedStrategy_calculate_counterexample:
  "CategoryBasedStrategy_calculate (CategoryBasedStrategy_new (Some camera_rules))
      (Some 8640000000000000) (Some (Equipment_new ''E2'' ''Chair B'' ''Chair'' None)) =
     Inr None
   \<and> CategoryBasedStrategy_calculate (CategoryBasedStrategy_new (Some camera_rules))
      (Date_UTC 2024 0 1) (Some (Equipment_new ''E3'' ''Kit C'' ''constructor'' None)) =
     Inr None
   \<and> Date_UTC 2024 0 1 = Some 1704067200000
   \<and> camera_rules ''constructor'' = None"
  unfolding sample_dates CategoryBased_unfold
  by (simp add: CategoryBasedStrategy_new_def camera_rules_def Equipment_new_def Get_def
      nullish_coalesce_def Object_prototype_keys_def maxTimeValue_def msPerDay_def)

section \<open>The services of the skeleton\<close>

text \<open>
  Claim C9. Every method of \<^verbatim>\<open>AvailabilityService\<close>, \<^verbatim>\<open>LoanService\<close>,
  \<^verbatim>\<open>NotificationService\<close>, \<^verbatim>\<open>PaymentService\<close>, \<^verbatim>\<open>OverdueService\<close> and \<^verbatim>\<open>ApprovalController\<close>
  throws \<^verbatim>\<open>Error('Not implemented')\<close> for every input and every collaborator it was built
  with, and leaves the world as it found it.
\<close>

theorem services_always_throw:
  "AvailabilityService_isAvailable w equipmentId period = (Inl (Error ''Not implemented''), w)
   \<and> LoanService_createLoanFromRequest ls w request = (Inl (Error ''Not implemented''), w)
   \<and> LoanService_returnLoan ls w loanId = (Inl (Error ''Not implemented''), w)
   \<and> NotificationService_send w to message' = (Inl (Error ''Not implemented''), w)
   \<and> PaymentService_payFine ps w fineId cardToken = (Inl (Error ''Not implemented''), w)
   \<and> OverdueService_runDailyCheck os w now = (Inl (Error ''Not implemented''), w)
   \<and> ApprovalController_submitRequest ac w equipmentId studentId start end' =
       (Inl (Error ''Not implemented''), w)
   \<and> ApprovalController_reviewRequest ac w requestId decision =
       (Inl (Error ''Not implemented''), w)"
  by (simp add: AvailabilityService_isAvailable_def LoanService_createLoanFromRequest_def
      LoanService_returnLoan_def NotificationService_send_def PaymentService_payFine_def
      OverdueService_runDailyCheck_def ApprovalController_submitRequest_def
      ApprovalController_reviewRequest_def)

text \<open>
  Claim C3, as the code has it. Whatever the fine policy, the world and \<open>now\<close>,
  \<^verbatim>\<open>runDailyCheck\<close> fails with \<^verbatim>\<open>Error('Not implemented')\<close> and creates no Fine: after any
  sequence of sweeps the fines of every loan are the ones it had before, so the second
  and later sweeps add nothing to what the first one left, and neither does the first.
\<close>

theorem runDailyCheck_creates_no_fine:
  "fst (OverdueService_runDailyCheck this w now) = Inl (Error ''Not implemented'')
   \<and> snd (OverdueService_runDailyCheck this w now) = w
   \<and> fines (sweeps this w nows) = fines w
   \<and> finesOfLoan (sweeps this w nows) loanId = finesOfLoan w loanId
   \<and> length (finesOfLoan (sweeps this w (now # now' # nows)) loanId) =
       length (finesOfLoan (snd (OverdueService_runDailyCheck this w now)) loanId)"
proof -
  have one: "OverdueService_runDailyCheck this w now = (Inl (Error ''Not implemented''), w)"
    by (simp add: OverdueService_runDailyCheck_def)
  have all: "sweeps this w ns = w" for ns
    by (induction ns arbitrary: w) (simp_all add: sweeps_def OverdueService_runDailyCheck_def)
  show ?thesis
    by (simp add: one all)
qed

text \<open>
  An instance: the sample loan is overdue on 2024-02-01 and not returned; after two sweeps
  with that \<open>now\<close> it still carries the one fine it had.
\<close>

theorem runDailyCheck_creates_no_fine_witness:
  "isOverdue sample_loan (Date_UTC 2024 1 1)
   \<and> loan_returnedAt sample_loan = None
   \<and> finesOfLoan (sweeps sample_overdueService sample_world [Date_UTC 2024 1 1, Date_UTC 2024 1 1])
        ''L1'' = [sample_fine]"
proof -
  have "finesOfLoan sample_world ''L1'' = [sample_fine]"
    by (simp add: finesOfLoan_def sample_world_def sample_fine_def Fine_new_def)
  moreover have "isOverdue sample_loan (Date_UTC 2024 1 1)" "loan_returnedAt sample_loan = None"
    by (simp_all add: isOverdue_def sample_loan_def Loan_new_def sample_dates)
  ultimately show ?thesis
    using runDailyCheck_creates_no_fine
      [of sample_overdueService sample_world "Date_UTC 2024 1 1"
        "[Date_UTC 2024 1 1, Date_UTC 2024 1 1]" "''L1''"]
    by simp
qed

text \<open>
  The wording "exactly one Fine is created per loan" of C3 fails: for the same overdue,
  unreturned loan without a fine, two sweeps leave it without a fine.
\<close>

theorem runDailyCheck_counterexample:
  "isOverdue sample_loan (Date_UTC 2024 1 1)
   \<and> loan_returnedAt sample_loan = None
   \<and> loans sample_world_no_fine = [sample_loan]
   \<and> finesOfLoan
        (sweeps sample_overdueService sample_world_no_fine [Date_UTC 2024 1 1, Date_UTC 2024 1 1])
        ''L1'' = []"
  by (simp add: isOverdue_def sample_loan_def Loan_new_def sample_dates sweeps_def
      OverdueService_runDailyCheck_def finesOfLoan_def sample_world_no_fine_def sample_world_def)

text \<open>
  Claim C4. In every world reached by any sequence of calls of the exported methods, each
  equipment item has at most one Active loan: from the initial world, and from any world
  in which that holds.
\<close>

theorem at_most_one_active_loan:
  "length (activeLoans (run initial_world cs) equipmentId) \<le> 1
   \<and> ((\<forall>e. length (activeLoans w0 e) \<le> 1) \<longrightarrow>
        length (activeLoans (run w0 cs) equipmentId) \<le> 1)"
  by (simp add: run_unchanged activeLoans_def initial_world_def)

text \<open>
  An instance: the camera of the sample world has one Active loan, and still has one
  after the calls that try to lend it out a second time.
\<close>

theorem at_most_one_active_loan_witness:
  "(\<forall>e. length (activeLoans sample_world e) \<le> 1)
   \<and> length (activeLoans sample_world ''E1'') = 1
   \<and> length (activeLoans (run sample_world sample_calls) ''E1'') \<le> 1"
proof -
  have h: "\<forall>e. length (activeLoans sample_world e) \<le> 1"
    by (simp add: activeLoans_def sample_world_def)
  have one: "length (activeLoans sample_world ''E1'') = 1"
    by (simp add: activeLoans_def sample_world_def sample_loan_def Loan_new_def)
  show ?thesis
    using h one at_most_one_active_loan [of sample_calls "''E1''" sample_world] by simp
qed

text \<open>
  Claim C5, as the code has it. For every gateway, world, fine id and card token,
  \<^verbatim>\<open>payFine\<close> fails with \<^verbatim>\<open>Error('Not implemented')\<close>, an error of class \<^verbatim>\<open>Error\<close>, and changes
  nothing: the fine, if there is one, keeps its status, amount, payment date and receipt
  reference, no charge is made, and the fines that are Paid exactly when they carry a
  receipt are the same as before. A second call does the same, and so does the method of
  \<^verbatim>\<open>PaymentController\<close>, which delegates.
\<close>

theorem payFine_fails_without_effect:
  "PaymentService_payFine this w fineId cardToken = (Inl (Error ''Not implemented''), w)
   \<and> name (Error ''Not implemented'') = ''Error''
   \<and> findFine (snd (PaymentService_payFine this w fineId cardToken)) fineId = findFine w fineId
   \<and> charges (snd (PaymentService_payFine this w fineId cardToken)) = charges w
   \<and> list_all paidWithReceipt (fines (snd (PaymentService_payFine this w fineId cardToken))) =
       list_all paidWithReceipt (fines w)
   \<and> PaymentService_payFine this (snd (PaymentService_payFine this w fineId cardToken)) fineId
         cardToken = (Inl (Error ''Not implemented''), w)
   \<and> PaymentController_payFine ctl w fineId cardToken = (Inl (Error ''Not implemented''), w)"
  by (simp add: PaymentService_payFine_def PaymentController_payFine_def Error_def)

text \<open>
  An instance: paying the unpaid sample fine through a gateway that would accept the
  charge fails and leaves the fine Unpaid, without a receipt.
\<close>

theorem payFine_fails_without_effect_witness:
  "fst (PaymentService_payFine sample_paymentService sample_world ''F1'' ''tok_visa'') =
     Inl (Error ''Not implemented'')
   \<and> gateway sample_paymentService 500 ''tok_visa'' = Inr ''receipt-0001''
   \<and> findFine (snd (PaymentService_payFine sample_paymentService sample_world ''F1'' ''tok_visa''))
        ''F1'' = Some sample_fine
   \<and> fine_status sample_fine = ''Unpaid''
   \<and> fine_receiptRef sample_fine = None
   \<and> paidWithReceipt sample_fine"
proof -
  have f: "findFine sample_world ''F1'' = Some sample_fine"
    by (simp add: findFine_def sample_world_def sample_fine_def Fine_new_def)
  have s: "fine_status sample_fine = ''Unpaid''" "fine_receiptRef sample_fine = None"
    "paidWithReceipt sample_fine"
    by (simp_all add: sample_fine_def Fine_new_def paidWithReceipt_def)
  have g: "gateway sample_paymentService 500 ''tok_visa'' = Inr ''receipt-0001''"
    by (simp add: sample_paymentService_def accepting_gateway_def)
  show ?thesis
    using payFine_fails_without_effect [of sample_paymentService sample_world "''F1''" "''tok_visa''"]
      f s g
    by simp
qed

text \<open>
  The wording of C5 fails: for an unknown fine id the error is not a NotFoundError, and
  for an Unpaid fine whose charge the gateway would accept the fine does not become Paid.
\<close>

theorem payFine_counterexample:
  "findFine sample_world ''F404'' = None
   \<and> fst (PaymentService_payFine sample_paymentService sample_world ''F404'' ''tok_visa'') =
       Inl (Error ''Not implemented'')
   \<and> name (Error ''Not implemented'') \<noteq> ''NotFoundError''
   \<and> findFine sample_world ''F1'' = Some sample_fine
   \<and> fine_status sample_fine = ''Unpaid''
   \<and> gateway sample_paymentService (fine_amountCents sample_fine) ''tok_visa'' =
       Inr ''receipt-0001''
   \<and> map_option fine_status
        (findFine (snd (PaymentService_payFine sample_paymentService sample_world ''F1''
           ''tok_visa'')) ''F1'') = Some ''Unpaid''"
  by (simp add: PaymentService_payFine_def Error_def findFine_def sample_world_def
      sample_fine_def Fine_new_def sample_paymentService_def accepting_gateway_def)

text \<open>
  Claim C6, as the code has it. For every world and loan id, \<^verbatim>\<open>returnLoan\<close> fails with
  \<^verbatim>\<open>Error('Not implemented')\<close>, an error of class \<^verbatim>\<open>Error\<close>, on the first call and on the
  second, and leaves the loan and every equipment item as they were.
\<close>

theorem returnLoan_fails_without_effect:
  "LoanService_returnLoan this w loanId = (Inl (Error ''Not implemented''), w)
   \<and> name (Error ''Not implemented'') = ''Error''
   \<and> findLoan (snd (LoanService_returnLoan this w loanId)) loanId = findLoan w loanId
   \<and> equipment (snd (LoanService_returnLoan this w loanId)) = equipment w
   \<and> LoanService_returnLoan this (snd (LoanService_returnLoan this w loanId)) loanId =
       (Inl (Error ''Not implemented''), w)"
  by (simp add: LoanService_returnLoan_def Error_def)

text \<open>An instance: returning the sample loan, twice.\<close>

theorem returnLoan_fails_without_effect_witness:
  "fst (LoanService_returnLoan sample_loanService sample_world ''L1'') =
     Inl (Error ''Not implemented'')
   \<and> findLoan (snd (LoanService_returnLoan sample_loanService sample_world ''L1'')) ''L1'' =
       Some sample_loan
   \<and> fst (LoanService_returnLoan sample_loanService
            (snd (LoanService_returnLoan sample_loanService sample_world ''L1'')) ''L1'') =
       Inl (Error ''Not implemented'')"
proof -
  have "findLoan sample_world ''L1'' = Some sample_loan"
    by (simp add: findLoan_def sample_world_def sample_loan_def Loan_new_def)
  then show ?thesis
    using returnLoan_fails_without_effect [of sample_loanService sample_world "''L1''"]
    by simp
qed

text \<open>
  The wording of C6 fails: the first call on an Active loan does not succeed, the loan
  stays Active and its equipment Loaned; and for an unknown id the error is not a
  NotFoundError.
\<close>

theorem returnLoan_counterexample:
  "findLoan sample_world ''L1'' = Some sample_loan
   \<and> loan_status sample_loan = ''Active''
   \<and> fst (LoanService_returnLoan sample_loanService sample_world ''L1'') =
       Inl (Error ''Not implemented'')
   \<and> map_option loan_status
        (findLoan (snd (LoanService_returnLoan sample_loanService sample_world ''L1'')) ''L1'') =
       Some ''Active''
   \<and> map_option eq_status
        (findEquipment (snd (LoanService_returnLoan sample_loanService sample_world ''L1''))
           ''E1'') = Some ''Loaned''
   \<and> findLoan sample_world ''L404'' = None
   \<and> fst (LoanService_returnLoan sample_loanService sample_world ''L404'') =
       Inl (Error ''Not implemented'')
   \<and> name (Error ''Not implemented'') \<noteq> ''NotFoundError''"
  by (simp add: LoanService_returnLoan_def Error_def findLoan_def findEquipment_def
      sample_world_def sample_loan_def Loan_new_def Equipment_new_def)

text \<open>
  Claim C7, as the code has it. For every world, equipment, requester, start and end,
  \<^verbatim>\<open>submitRequest\<close> fails with \<^verbatim>\<open>Error('Not implemented')\<close>, an error of class \<^verbatim>\<open>Error\<close>;
  it creates no LoanRequest and sends no notification.
\<close>

theorem submitRequest_fails_without_effect:
  "ApprovalController_submitRequest this w equipmentId studentId start end' =
     (Inl (Error ''Not implemented''), w)
   \<and> name (Error ''Not implemented'') = ''Error''
   \<and> loanRequests (snd (ApprovalController_submitRequest this w equipmentId studentId start end'))
       = loanRequests w
   \<and> mails (snd (ApprovalController_submitRequest this w equipmentId studentId start end'))
       = mails w"
  by (simp add: ApprovalController_submitRequest_def Error_def)

text \<open>An instance: a request for 2024-03-01 to 2024-03-05 in the initial world.\<close>

theorem submitRequest_fails_without_effect_witness:
  "fst (ApprovalController_submitRequest sample_approvalController initial_world ''E1'' ''S1''
          (Date_UTC 2024 2 1) (Date_UTC 2024 2 5)) = Inl (Error ''Not implemented'')
   \<and> loanRequests
        (snd (ApprovalController_submitRequest sample_approvalController initial_world ''E1''
           ''S1'' (Date_UTC 2024 2 1) (Date_UTC 2024 2 5))) = []"
  using submitRequest_fails_without_effect
    [of sample_approvalController initial_world "''E1''" "''S1''" "Date_UTC 2024 2 1"
      "Date_UTC 2024 2 5"]
  by (simp add: initial_world_def)

text \<open>
  The wording of C7 fails: with the start after the end the error is not a
  ValidationError, and a request with the start before the end, for which the availability
  check does not return false, creates no LoanRequest.
\<close>

theorem submitRequest_counterexample:
  "Date_UTC 2024 2 5 = Some 1709596800000
   \<and> Date_UTC 2024 2 1 = Some 1709251200000
   \<and> fst (ApprovalController_submitRequest sample_approvalController initial_world ''E1'' ''S1''
          (Date_UTC 2024 2 5) (Date_UTC 2024 2 1)) = Inl (Error ''Not implemented'')
   \<and> name (Error ''Not implemented'') \<noteq> ''ValidationError''
   \<and> fst (ApprovalController_submitRequest sample_approvalController initial_world ''E1'' ''S1''
          (Date_UTC 2024 2 1) (Date_UTC 2024 2 5)) = Inl (Error ''Not implemented'')
   \<and> fst (AvailabilityService_isAvailable initial_world ''E1''
          (Some (Date_UTC 2024 2 1, Date_UTC 2024 2 5))) \<noteq> Inr False
   \<and> loanRequests
        (snd (ApprovalController_submitRequest sample_approvalController initial_world ''E1''
           ''S1'' (Date_UTC 2024 2 1) (Date_UTC 2024 2 5))) = []"
  by (simp add: sample_dates ApprovalController_submitRequest_def
      AvailabilityService_isAvailable_def Error_def initial_world_def)

section \<open>Entities\<close>

text \<open>
  Claim C8, as the code has it. A person built by \<^verbatim>\<open>Student\<close> has the role \<^verbatim>\<open>'Student'\<close>, one
  built by \<^verbatim>\<open>Staff\<close> the role \<^verbatim>\<open>'Staff'\<close>, and \<^verbatim>\<open>User\<close> stores the role it is given. The role
  is a field of the record, and it is a class as well: \<^verbatim>\<open>Student\<close> and \<^verbatim>\<open>Staff\<close> are
  subclasses of \<^verbatim>\<open>User\<close>.
\<close>

theorem person_role_is_data_and_class:
  "u_role (Student_new id' name' email) = ''Student''
   \<and> u_role (Staff_new id' name' email) = ''Staff''
   \<and> u_role (User_new id' name' email role) = role
   \<and> u_class (Student_new id' name' email) = Class_Student
   \<and> u_class (Staff_new id' name' email) = Class_Staff
   \<and> u_class (User_new id' name' email role) = Class_User"
  by (simp add: Student_new_def Staff_new_def User_new_def)

text \<open>
  The wording of C8 fails: the roles the program sets are neither \<^verbatim>\<open>'Requester'\<close> nor
  \<^verbatim>\<open>'Approver'\<close>, and a student and a staff member are objects of different classes.
\<close>

theorem person_role_counterexample:
  "u_role (Student_new ''S1'' ''Ann'' ''ann@uni.example'') \<notin> {''Requester'', ''Approver''}
   \<and> u_role (Staff_new ''T1'' ''Bob'' ''bob@uni.example'') \<notin> {''Requester'', ''Approver''}
   \<and> u_class (Student_new ''S1'' ''Ann'' ''ann@uni.example'') \<noteq>
       u_class (Staff_new ''T1'' ''Bob'' ''bob@uni.example'')"
  by (simp add: Student_new_def Staff_new_def User_new_def)

text \<open>
  Claim C10. Constructed without a status argument, and so without the arguments that
  follow it, an Equipment is Available, a LoanRequest is Pending, a Loan is Active with
  \<open>returnedAt\<close> unset, and a Fine is Unpaid with \<open>paidAt\<close> and \<open>receiptRef\<close> unset.
\<close>

theorem constructor_defaults:
  "eq_status (Equipment_new id' name' category None) = ''Available''
   \<and> lr_status (LoanRequest_new clock id' studentId equipmentId startDate endDate None None) =
       ''Pending''
   \<and> loan_status (Loan_new id' studentId equipmentId startDate dueDate None None) = ''Active''
   \<and> loan_returnedAt (Loan_new id' studentId equipmentId startDate dueDate None None) = None
   \<and> fine_status (Fine_new clock id' loanId amountCents None None None None) = ''Unpaid''
   \<and> fine_paidAt (Fine_new clock id' loanId amountCents None None None None) = None
   \<and> fine_receiptRef (Fine_new clock id' loanId amountCents None None None None) = None"
  by (simp add: Equipment_new_def LoanRequest_new_def Loan_new_def Fine_new_def)

end
